theory Spec2Isabelle
  imports Main
begin

section \<open>Strings as the builder uses them\<close>

text \<open>
  Python strings are modelled as \<open>string\<close>, one \<open>char\<close> per character (the
  characters with code points below 256).
  \<open>join_str\<close> is \<open>sep.join(parts)\<close>, \<open>replace_char\<close> is \<open>s.replace(a, b)\<close> for
  single-character arguments, \<open>lower\<close> is \<open>s.lower()\<close> on ASCII letters, and
  \<open>str_int\<close> is the decimal text an f-string writes for an integer.
\<close>

fun join_str :: "string \<Rightarrow> string list \<Rightarrow> string" where
  "join_str sep [] = []"
| "join_str sep [x] = x"
| "join_str sep (x # y # ys) = x @ sep @ join_str sep (y # ys)"

definition replace_char :: "char \<Rightarrow> char \<Rightarrow> string \<Rightarrow> string" where
  "replace_char a b s = map (\<lambda>c. if c = a then b else c) s"

definition lower_char :: "char \<Rightarrow> char" where
  "lower_char c =
     (if (65::nat) \<le> of_char c \<and> (of_char c :: nat) \<le> 90
      then char_of ((of_char c :: nat) + 32) else c)"

definition lower :: "string \<Rightarrow> string" where
  "lower s = map lower_char s"

definition digit_char :: "nat \<Rightarrow> char" where
  "digit_char d = char_of (48 + d)"

function str_nat :: "nat \<Rightarrow> string" where
  "str_nat n = (if n < 10 then [digit_char n] else str_nat (n div 10) @ [digit_char (n mod 10)])"
  by pat_completeness auto
termination
  by (relation "measure id") auto

declare str_nat.simps [simp del]

definition str_int :: "int \<Rightarrow> string" where
  "str_int i = (if i < 0 then CHR ''-'' # str_nat (nat (- i)) else str_nat (nat i))"

text \<open>
  \<open>s.strip()\<close> removes leading and trailing whitespace: the characters for which
  \<open>str.isspace\<close> holds, which below 256 are 9 to 13, 28 to 32, 133 and 160.
\<close>

definition is_space :: "char \<Rightarrow> bool" where
  "is_space c = (((9::nat) \<le> of_char c \<and> (of_char c :: nat) \<le> 13)
                 \<or> ((28::nat) \<le> of_char c \<and> (of_char c :: nat) \<le> 32)
                 \<or> (of_char c :: nat) = 133 \<or> (of_char c :: nat) = 160)"

text \<open>
  What an f-string writes for an optional integer: \<open>None\<close> or the decimal text.
\<close>

definition str_opt :: "nat option \<Rightarrow> string" where
  "str_opt x = (case x of None \<Rightarrow> ''None'' | Some n \<Rightarrow> str_nat n)"

definition strip :: "string \<Rightarrow> string" where
  "strip s = rev (dropWhile is_space (rev (dropWhile is_space s)))"

section \<open>Data model (app/core/enums.py, app/core/models.py)\<close>

datatype ComparisonOperator =
    EQUAL | NOT_EQUAL | GREATER | GREATER_EQUAL | LESS | LESS_EQUAL
  | CONTAINS | STARTS_WITH | ENDS_WITH | IN | NOT_IN | REGEX

text \<open>
  \<open>name\<close> and \<open>value\<close> of the members of \<open>ComparisonOperator\<close>.
\<close>

fun member_name :: "ComparisonOperator \<Rightarrow> string" where
  "member_name EQUAL = ''EQUAL''"
| "member_name NOT_EQUAL = ''NOT_EQUAL''"
| "member_name GREATER = ''GREATER''"
| "member_name GREATER_EQUAL = ''GREATER_EQUAL''"
| "member_name LESS = ''LESS''"
| "member_name LESS_EQUAL = ''LESS_EQUAL''"
| "member_name CONTAINS = ''CONTAINS''"
| "member_name STARTS_WITH = ''STARTS_WITH''"
| "member_name ENDS_WITH = ''ENDS_WITH''"
| "member_name IN = ''IN''"
| "member_name NOT_IN = ''NOT_IN''"
| "member_name REGEX = ''REGEX''"


datatype LogicalOperator = AND | OR | NOT

fun logical_value :: "LogicalOperator \<Rightarrow> string" where
  "logical_value AND = ''AND''"
| "logical_value OR = ''OR''"
| "logical_value NOT = ''NOT''"

datatype RelationshipDirection = INCOMING | OUTGOING | BOTH


text \<open>
  \<open>value: Any\<close>: the values a JSON request can carry. The builder never inspects
  a value, it only stores it in the parameter map.
\<close>

datatype pyvalue = VNone | VBool bool | VInt int | VStr string | VList "pyvalue list"

record PropertyFilter =
  property_name :: string
  operator :: ComparisonOperator
  pvalue :: pyvalue

record NodeCriteria =
  node_types :: "string list"
  node_property_filters :: "PropertyFilter list"
  logical_operator :: LogicalOperator

record RelationshipCriteria =
  relationship_types :: "string list"
  rel_property_filters :: "PropertyFilter list"
  direction :: "RelationshipDirection option"
  min_depth :: int
  max_depth :: int

text \<open>
  Every field of \<open>GraphFilterRequest\<close> is declared \<open>Optional\<close>, so each can be
  \<open>None\<close>. \<open>skip\<close> is declared \<open>ge=0\<close> and \<open>limit\<close> is declared \<open>ge=1, le=1000\<close>:
  both are natural numbers here, and \<open>field_constraints\<close> below states the bounds
  that the types do not (those of \<open>limit\<close>, the \<open>ge=1\<close> of the two depths, and the
  validator of \<open>PropertyFilter\<close>, which wants a list for \<open>IN\<close> and \<open>NOT_IN\<close>).
\<close>

record GraphFilterRequest =
  source_nodes :: "NodeCriteria list option"
  relationships :: "RelationshipCriteria list option"
  target_nodes :: "NodeCriteria list option"
  search_query :: "string option"
  limit :: "nat option"
  skip :: "nat option"

text \<open>
  The list a guard \<open>if xs:\<close> lets through: \<open>None\<close> and the empty list are both
  falsy, and the guarded loop then does not run.
\<close>

definition or_empty :: "'a list option \<Rightarrow> 'a list" where
  "or_empty xs = (case xs of None \<Rightarrow> [] | Some l \<Rightarrow> l)"

definition value_constraint :: "PropertyFilter \<Rightarrow> bool" where
  "value_constraint pf =
     (if operator pf = IN \<or> operator pf = NOT_IN
      then (case pvalue pf of VList _ \<Rightarrow> True | _ \<Rightarrow> False) else True)"

definition field_constraints :: "GraphFilterRequest \<Rightarrow> bool" where
  "field_constraints req =
     ((case limit req of None \<Rightarrow> True | Some l \<Rightarrow> 1 \<le> l \<and> l \<le> 1000)
      \<and> list_all (\<lambda>c. list_all value_constraint (node_property_filters c))
            (or_empty (source_nodes req) @ or_empty (target_nodes req))
      \<and> list_all (\<lambda>c. 1 \<le> min_depth c \<and> 1 \<le> max_depth c
                      \<and> list_all value_constraint (rel_property_filters c))
            (or_empty (relationships req)))"

section \<open>Dictionaries\<close>

text \<open>
  A Python \<open>dict\<close> keeps its keys in insertion order; assigning to a key that is
  present replaces the value in place. \<open>dict_set\<close> is \<open>d[k] = v\<close> and
  \<open>dict_update\<close> is \<open>d.update(p)\<close>.
\<close>

type_synonym params = "(string \<times> pyvalue) list"

fun dict_set :: "('k \<times> 'v) list \<Rightarrow> 'k \<Rightarrow> 'v \<Rightarrow> ('k \<times> 'v) list" where
  "dict_set [] k v = [(k, v)]"
| "dict_set ((k', v') # d) k v = (if k' = k then (k, v) # d else (k', v') # dict_set d k v)"

fun dict_update :: "('k \<times> 'v) list \<Rightarrow> ('k \<times> 'v) list \<Rightarrow> ('k \<times> 'v) list" where
  "dict_update d [] = d"
| "dict_update d ((k, v) # p) = dict_update (dict_set d k v) p"

definition keys :: "('k \<times> 'v) list \<Rightarrow> 'k list" where
  "keys d = map fst d"

section \<open>Exceptions (app/core/exceptions.py)\<close>

text \<open>
  An exception of the service carries a message, an HTTP status code and a
  dictionary of details. The constructors below are the \<open>__init__\<close> methods; an
  optional argument that is \<open>None\<close> or empty is falsy and adds no entry.
  \<open>TypeError\<close> is Python's own exception (the length of \<open>None\<close>, a loop over
  \<open>None\<close>, \<open>None < 1\<close>), and \<open>ValidationError\<close> is the one pydantic raises when a
  \<open>FilterResponse\<close> is built with \<open>None\<close> for an integer field.
\<close>

record exception_fields =
  message :: string
  status_code :: int
  details :: "(string \<times> string) list"

datatype error =
    InvalidFilterException exception_fields
  | QueryExecutionException exception_fields
  | TypeError
  | ValidationError

definition truthy :: "string option \<Rightarrow> bool" where
  "truthy x = (case x of None \<Rightarrow> False | Some s \<Rightarrow> s \<noteq> [])"

definition details_or_empty :: "(string \<times> string) list option \<Rightarrow> (string \<times> string) list" where
  "details_or_empty d = (case d of None \<Rightarrow> [] | Some x \<Rightarrow> x)"

definition InvalidFilterException_init ::
  "string \<Rightarrow> string option \<Rightarrow> string option \<Rightarrow> string option
     \<Rightarrow> (string \<times> string) list option \<Rightarrow> error" where
  "InvalidFilterException_init msg filter_type invalid_field invalid_value dtls =
     (let error_details = details_or_empty dtls;
          error_details = (if truthy filter_type
                           then dict_set error_details ''filter_type'' (the filter_type)
                           else error_details);
          error_details = (if truthy invalid_field
                           then dict_set error_details ''invalid_field'' (the invalid_field)
                           else error_details);
          error_details = (case invalid_value of
                             None \<Rightarrow> error_details
                           | Some v \<Rightarrow> dict_set error_details ''invalid_value'' v)
      in InvalidFilterException
           \<lparr>message = msg, status_code = 400, details = error_details\<rparr>)"

definition QueryExecutionException_init ::
  "string \<Rightarrow> string option \<Rightarrow> string option \<Rightarrow> string option
     \<Rightarrow> (string \<times> string) list option \<Rightarrow> error" where
  "QueryExecutionException_init msg query cypher_error error_code dtls =
     (let error_details = details_or_empty dtls;
          error_details =
            (if truthy query
             then (let max_query_length = 500;
                       truncated_query = take max_query_length (the query);
                       truncated_query =
                         (if length (the query) > max_query_length
                          then truncated_query @ ''... (truncated)''
                          else truncated_query)
                   in dict_set error_details ''query'' truncated_query)
             else error_details);
          error_details = (if truthy cypher_error
                           then dict_set error_details ''cypher_error'' (the cypher_error)
                           else error_details);
          error_details = (if truthy error_code
                           then dict_set error_details ''error_code'' (the error_code)
                           else error_details)
      in QueryExecutionException
           \<lparr>message = msg, status_code = 500, details = error_details\<rparr>)"

section \<open>The query builder (app/services/query_builder.py)\<close>

text \<open>
  \<open>build_property_condition\<close> is \<open>CypherQueryBuilder._build_property_condition\<close>:
  the key of the parameter, the property reference, the one-entry parameter map and
  the \<open>match\<close> over the operator. The operator is a member of the enumeration, so
  one of the twelve named branches is taken; the wildcard branch that ends the
  \<open>match\<close> has no member left to take it.
\<close>

definition build_property_condition ::
  "PropertyFilter \<Rightarrow> string \<Rightarrow> string \<Rightarrow> string \<times> params" where
  "build_property_condition prop_filter var_name param_prefix =
     (let safe_prop = replace_char CHR ''-'' CHR ''_''
                        (replace_char CHR ''.'' CHR ''_'' (property_name prop_filter));
          param_key = param_prefix @ ''_'' @ safe_prop @ ''_''
                        @ lower (member_name (operator prop_filter));
          prop_ref = var_name @ ''.'' @ property_name prop_filter;
          params = [(param_key, pvalue prop_filter)];
          condition =
            (case operator prop_filter of
               EQUAL \<Rightarrow> prop_ref @ '' = $'' @ param_key
             | NOT_EQUAL \<Rightarrow> prop_ref @ '' <> $'' @ param_key
             | GREATER \<Rightarrow> prop_ref @ '' > $'' @ param_key
             | GREATER_EQUAL \<Rightarrow> prop_ref @ '' >= $'' @ param_key
             | LESS \<Rightarrow> prop_ref @ '' < $'' @ param_key
             | LESS_EQUAL \<Rightarrow> prop_ref @ '' <= $'' @ param_key
             | CONTAINS \<Rightarrow> prop_ref @ '' CONTAINS $'' @ param_key
             | STARTS_WITH \<Rightarrow> prop_ref @ '' STARTS WITH $'' @ param_key
             | ENDS_WITH \<Rightarrow> prop_ref @ '' ENDS WITH $'' @ param_key
             | IN \<Rightarrow> prop_ref @ '' IN $'' @ param_key
             | NOT_IN \<Rightarrow> ''NOT '' @ prop_ref @ '' IN $'' @ param_key
             | REGEX \<Rightarrow> prop_ref @ '' =~ $'' @ param_key)
      in (condition, params))"

text \<open>
  The loop \<open>for pf in criteria.property_filters\<close> of the three block builders:
  it appends each condition to a list and merges each parameter map.
\<close>

fun property_loop ::
  "PropertyFilter list \<Rightarrow> string \<Rightarrow> string \<Rightarrow> string list \<times> params \<Rightarrow> string list \<times> params" where
  "property_loop [] var p_key (conds, params) = (conds, params)"
| "property_loop (pf # pfs) var p_key (conds, params) =
     (let (c, p) = build_property_condition pf var p_key
      in property_loop pfs var p_key (conds @ [c], dict_update params p))"

definition build_node_block ::
  "NodeCriteria \<Rightarrow> string \<Rightarrow> nat \<Rightarrow> string \<Rightarrow> string \<times> params" where
  "build_node_block criteria var idx prefix =
     (let p_key = prefix @ str_nat idx;
          lbl_param = p_key @ ''_labels'';
          (conds, params) =
            (if node_types criteria \<noteq> []
             then ([''any(l IN labels('' @ var @ '') WHERE l IN $'' @ lbl_param @ '')''],
                   dict_set [] lbl_param (VList (map VStr (node_types criteria))))
             else ([], []));
          (prop_conds, params) =
            property_loop (node_property_filters criteria) var p_key ([], params);
          conds =
            (if prop_conds \<noteq> []
             then conds @ [''('' @ join_str ('' '' @ logical_value (logical_operator criteria) @ '' '')
                                      prop_conds @ '')'']
             else conds)
      in if conds = [] then ([], [])
         else (''('' @ join_str '' AND '' conds @ '')'', params))"

definition build_rel_block_variable ::
  "RelationshipCriteria \<Rightarrow> string \<Rightarrow> nat \<Rightarrow> string \<times> params" where
  "build_rel_block_variable criteria path_var idx =
     (let p_key = ''rel'' @ str_nat idx;
          rel_var = ''r'';
          t_param = p_key @ ''_types'';
          (conds, params) =
            (if relationship_types criteria \<noteq> []
             then ([''type('' @ rel_var @ '') IN $'' @ t_param],
                   dict_set [] t_param (VList (map VStr (relationship_types criteria))))
             else ([], []));
          (conds, params) =
            property_loop (rel_property_filters criteria) rel_var p_key (conds, params);
          inner_logic = (if conds \<noteq> [] then join_str '' AND '' conds else ''true'');
          full_logic = ''ALL('' @ rel_var @ '' IN relationships('' @ path_var @ '') WHERE ''
                         @ inner_logic @ '')'';
          length_logic = ''(length('' @ path_var @ '') >= '' @ str_int (min_depth criteria)
                           @ '' AND length('' @ path_var @ '') <= '' @ str_int (max_depth criteria)
                           @ '')''
      in (''('' @ length_logic @ '' AND '' @ full_logic @ '')'', params))"

definition build_rel_block_simple ::
  "RelationshipCriteria \<Rightarrow> nat \<Rightarrow> string \<times> params" where
  "build_rel_block_simple criteria idx =
     (let p_key = ''rel'' @ str_nat idx;
          t_param = p_key @ ''_types'';
          (conds, params) =
            (if relationship_types criteria \<noteq> []
             then ([''type(r) IN $'' @ t_param],
                   dict_set [] t_param (VList (map VStr (relationship_types criteria))))
             else ([], []));
          (conds, params) =
            property_loop (rel_property_filters criteria) ''r'' p_key (conds, params);
          conds =
            (if direction criteria = Some OUTGOING then conds @ [''startNode(r) = n'']
             else if direction criteria = Some INCOMING then conds @ [''endNode(r) = n'']
             else conds)
      in if conds = [] then ([], [])
         else (''('' @ join_str '' AND '' conds @ '')'', params))"

text \<open>
  The loops over the criteria lists: \<open>for i, c in enumerate(...)\<close>, keeping a block
  and its parameters only when the block's text is not empty.
\<close>

fun node_blocks_loop ::
  "(nat \<times> NodeCriteria) list \<Rightarrow> string \<Rightarrow> string \<Rightarrow> string list \<times> params \<Rightarrow> string list \<times> params" where
  "node_blocks_loop [] var prefix (blocks, params) = (blocks, params)"
| "node_blocks_loop ((i, c) # rest) var prefix (blocks, params) =
     (let (b, p) = build_node_block c var i prefix
      in if b \<noteq> [] then node_blocks_loop rest var prefix (blocks @ [b], dict_update params p)
         else node_blocks_loop rest var prefix (blocks, params))"

fun rel_blocks_loop ::
  "(nat \<times> RelationshipCriteria) list \<Rightarrow> bool \<Rightarrow> string list \<times> params \<Rightarrow> string list \<times> params" where
  "rel_blocks_loop [] use_variable_path (blocks, params) = (blocks, params)"
| "rel_blocks_loop ((i, c) # rest) use_variable_path (blocks, params) =
     (let (b, p) = (if use_variable_path then build_rel_block_variable c ''p'' i
                    else build_rel_block_simple c i)
      in if b \<noteq> [] then rel_blocks_loop rest use_variable_path (blocks @ [b], dict_update params p)
         else rel_blocks_loop rest use_variable_path (blocks, params))"

text \<open>
  One criteria group of a query: the guarded loop and the \<open>OR\<close> of its blocks,
  appended to \<open>wheres\<close> (the sections "Source Nodes", "Target Nodes" of the source).
\<close>

definition node_group ::
  "NodeCriteria list \<Rightarrow> string \<Rightarrow> string \<Rightarrow> string list \<times> params \<Rightarrow> string list \<times> params" where
  "node_group criteria_list var prefix = (\<lambda>(wheres, params).
     if criteria_list \<noteq> []
     then (let (blocks, params) =
                 node_blocks_loop (enumerate 0 criteria_list) var prefix ([], params)
           in (if blocks \<noteq> [] then wheres @ [''('' @ join_str '' OR '' blocks @ '')'']
               else wheres, params))
     else (wheres, params))"

definition rel_group ::
  "RelationshipCriteria list \<Rightarrow> bool \<Rightarrow> string list \<times> params \<Rightarrow> string list \<times> params" where
  "rel_group criteria_list use_variable_path = (\<lambda>(wheres, params).
     if criteria_list \<noteq> []
     then (let (blocks, params) =
                 rel_blocks_loop (enumerate 0 criteria_list) use_variable_path ([], params)
           in (if blocks \<noteq> [] then wheres @ [''('' @ join_str '' OR '' blocks @ '')'']
               else wheres, params))
     else (wheres, params))"

definition search_clause :: string where
  "search_clause =
     ''(any(l in labels(n) WHERE l =~ $g_search) OR any(k in keys(n) WHERE toString(n[k]) =~ $g_search))''"

definition build_node_query :: "GraphFilterRequest \<Rightarrow> string \<times> params" where
  "build_node_query req =
     (let (wheres, params) = node_group (or_empty (source_nodes req)) ''n'' ''s'' ([], []);
          (wheres, params) =
            (case search_query req of
               None \<Rightarrow> (wheres, params)
             | Some s \<Rightarrow>
                 if s \<noteq> []
                 then (wheres @ [search_clause],
                       dict_set params ''g_search'' (VStr (''(?i).*'' @ s @ ''.*'')))
                 else (wheres, params));
          query = ''MATCH (n)'';
          query = (if wheres \<noteq> [] then query @ ''\<newline>WHERE '' @ join_str '' AND '' wheres
                   else query);
          query = query @ ''\<newline>RETURN n, labels(n) as node_labels, id(n) as node_id'';
          query = query @ ''\<newline>SKIP '' @ str_opt (skip req) @ '' LIMIT '' @ str_opt (limit req)
      in (query, params))"

text \<open>\<open>min(..., default=d)\<close> and \<open>max(..., default=d)\<close> over a list of integers.\<close>

fun min_default :: "int list \<Rightarrow> int \<Rightarrow> int" where
  "min_default [] d = d"
| "min_default (x # xs) d = fold min xs x"

fun max_default :: "int list \<Rightarrow> int \<Rightarrow> int" where
  "max_default [] d = d"
| "max_default (x # xs) d = fold max xs x"

definition use_variable_path :: "RelationshipCriteria list \<Rightarrow> bool" where
  "use_variable_path rels = list_ex (\<lambda>r. min_depth r \<noteq> 1 \<or> max_depth r \<noteq> 1) rels"

text \<open>
  \<open>build_relationship_query\<close>. Its first statement iterates \<open>req.relationships\<close>,
  which raises \<open>TypeError\<close> when the field is \<open>None\<close>; from there on the field is
  a list, \<open>rels\<close> in \<open>relationship_query\<close>, which is the function from that point.
\<close>

definition relationship_query ::
  "GraphFilterRequest \<Rightarrow> RelationshipCriteria list \<Rightarrow> string \<times> params" where
  "relationship_query req rels =
     (let variable = use_variable_path rels;
          min_d = min_default (map min_depth rels) 1;
          max_d = max_default (map max_depth rels) 1;
          query = (if variable then ''MATCH p = (n)-[*1..'' @ str_int max_d @ '']-(m)''
                   else ''MATCH (n)-[r]-(m)'');
          (wheres, params) = node_group (or_empty (source_nodes req)) ''n'' ''s'' ([], []);
          (wheres, params) = node_group (or_empty (target_nodes req)) ''m'' ''t'' (wheres, params);
          (wheres, params) = rel_group rels variable (wheres, params);
          query = (if wheres \<noteq> [] then query @ ''\<newline>WHERE '' @ join_str '' AND '' wheres
                   else query);
          query = (if variable
                   then query @ ''\<newline>WITH n, m, p, last(relationships(p)) as r''
                          @ ''\<newline>RETURN n, r, m, type(r) as rel_type, id(r) as rel_id''
                   else query @ ''\<newline>RETURN n, r, m, type(r) as rel_type, id(r) as rel_id'');
          query = query @ ''\<newline>SKIP '' @ str_opt (skip req) @ '' LIMIT '' @ str_opt (limit req)
      in (query, params))"

definition build_relationship_query :: "GraphFilterRequest \<Rightarrow> error + (string \<times> params)" where
  "build_relationship_query req =
     (case relationships req of
        None \<Rightarrow> Inl TypeError
      | Some rels \<Rightarrow> Inr (relationship_query req rels))"

section \<open>The filter service (app/services/filter_service.py)\<close>

definition validate_filter_request :: "GraphFilterRequest \<Rightarrow> error + unit" where
  "validate_filter_request filter_request =
     (case source_nodes filter_request of
        None \<Rightarrow> Inl TypeError
      | Some sources \<Rightarrow>
     (case relationships filter_request of
        None \<Rightarrow> Inl TypeError
      | Some rels \<Rightarrow>
     (case target_nodes filter_request of
        None \<Rightarrow> Inl TypeError
      | Some targets \<Rightarrow>
     (let has_source = length sources > 0;
          has_rels = length rels > 0;
          has_target = length targets > 0;
          has_search = (case search_query filter_request of
                          None \<Rightarrow> False
                        | Some s \<Rightarrow> strip s \<noteq> [])
      in if \<not> (has_source \<or> has_rels \<or> has_target \<or> has_search)
         then Inl (InvalidFilterException_init
                ''At least one filter criterion (Source, Relationship, Target, or Search) must be provided''
                (Some ''request'') None None None)
         else (case limit filter_request of
                 None \<Rightarrow> Inl TypeError
               | Some l \<Rightarrow>
                   if l < 1
                   then Inl (InvalidFilterException_init ''Limit must be at least 1''
                          (Some ''pagination'') None None None)
                   else Inr ())))))"

record NodeResponse =
  node_id :: int
  labels :: "string list"
  properties :: "(string \<times> pyvalue) list"

record RelationshipResponse =
  rel_id :: int
  rel_type :: string
  source :: NodeResponse
  target :: NodeResponse
  rel_properties :: "(string \<times> pyvalue) list"


text \<open>
  The body of the \<open>try\<close> statement (opening the session, running the query and
  mapping every record) is the store's side of the call: it either returns the
  mapped list or raises an exception \<open>e\<close>. An executor gives \<open>Inr\<close> of the list or
  \<open>Inl\<close> of \<open>str(e)\<close>.
\<close>

type_synonym 'a executor = "string \<Rightarrow> params \<Rightarrow> string + 'a list"

definition filter_nodes ::
  "NodeResponse executor \<Rightarrow> GraphFilterRequest \<Rightarrow> error + NodeResponse list" where
  "filter_nodes exec filter_request =
     (case validate_filter_request filter_request of
        Inl e \<Rightarrow> Inl e
      | Inr _ \<Rightarrow>
          (let (query, params) = build_node_query filter_request
           in case exec query params of
                Inr nodes \<Rightarrow> Inr nodes
              | Inl e \<Rightarrow> Inl (QueryExecutionException_init ''Failed to execute node query''
                                (Some query) (Some e) None None)))"

definition filter_relationships ::
  "RelationshipResponse executor \<Rightarrow> GraphFilterRequest \<Rightarrow> error + RelationshipResponse list" where
  "filter_relationships exec filter_request =
     (case validate_filter_request filter_request of
        Inl e \<Rightarrow> Inl e
      | Inr _ \<Rightarrow>
          (case build_relationship_query filter_request of
             Inl e \<Rightarrow> Inl e
           | Inr (query, params) \<Rightarrow>
               (case exec query params of
                  Inr rels \<Rightarrow> Inr rels
                | Inl e \<Rightarrow> Inl (QueryExecutionException_init
                                  ''Failed to execute relationship query''
                                  (Some query) (Some e) None None))))"





section \<open>Closed forms used in the statements\<close>

text \<open>
  The texts the loops collect, written without the loops: the non-empty block
  texts of a criteria list in index order, the parenthesised \<open>OR\<close> of a group, the
  \<open>WHERE\<close> line, and the pagination line.
\<close>

definition or_group :: "string list \<Rightarrow> string list" where
  "or_group blocks = (if blocks = [] then [] else [''('' @ join_str '' OR '' blocks @ '')''])"

definition where_clause :: "string list \<Rightarrow> string" where
  "where_clause wheres =
     (if wheres = [] then [] else ''\<newline>WHERE '' @ join_str '' AND '' wheres)"

definition node_block_texts :: "NodeCriteria list \<Rightarrow> string \<Rightarrow> string \<Rightarrow> string list" where
  "node_block_texts cs var prefix =
     filter (\<lambda>b. b \<noteq> [])
       (map (\<lambda>(i, c). fst (build_node_block c var i prefix)) (enumerate 0 cs))"

definition rel_block_texts :: "RelationshipCriteria list \<Rightarrow> bool \<Rightarrow> string list" where
  "rel_block_texts cs variable =
     filter (\<lambda>b. b \<noteq> [])
       (map (\<lambda>(i, c). fst (if variable then build_rel_block_variable c ''p'' i
                              else build_rel_block_simple c i)) (enumerate 0 cs))"

definition pagination :: "GraphFilterRequest \<Rightarrow> string" where
  "pagination req = ''\<newline>SKIP '' @ str_opt (skip req) @ '' LIMIT '' @ str_opt (limit req)"

definition property_conditions :: "PropertyFilter list \<Rightarrow> string \<Rightarrow> string \<Rightarrow> string list" where
  "property_conditions pfs var p_key =
     map (\<lambda>pf. fst (build_property_condition pf var p_key)) pfs"

definition rel_conds :: "RelationshipCriteria \<Rightarrow> nat \<Rightarrow> string list" where
  "rel_conds c i =
     (if relationship_types c \<noteq> [] then [''type(r) IN $rel'' @ str_nat i @ ''_types''] else [])
     @ property_conditions (rel_property_filters c) ''r'' (''rel'' @ str_nat i)"

definition direction_conds :: "RelationshipCriteria \<Rightarrow> string list" where
  "direction_conds c =
     (if direction c = Some OUTGOING then [''startNode(r) = n'']
      else if direction c = Some INCOMING then [''endNode(r) = n''] else [])"

section \<open>Example inputs\<close>

definition ex_person :: NodeCriteria where
  "ex_person = \<lparr>node_types = [''Person''], node_property_filters = [], logical_operator = AND\<rparr>"

definition ex_person_request :: GraphFilterRequest where
  "ex_person_request =
     \<lparr>source_nodes = Some [ex_person], relationships = Some [], target_nodes = Some [],
      search_query = None, limit = Some 10, skip = Some 0\<rparr>"

text \<open>A request body with \<open>"source_nodes": null\<close> and nothing else.\<close>

definition ex_null_sources :: GraphFilterRequest where
  "ex_null_sources =
     \<lparr>source_nodes = None, relationships = Some [], target_nodes = Some [],
      search_query = None, limit = Some 100, skip = Some 0\<rparr>"

text \<open>The same request with the empty list in place of \<open>null\<close>.\<close>

definition ex_no_criteria :: GraphFilterRequest where
  "ex_no_criteria =
     \<lparr>source_nodes = Some [], relationships = Some [], target_nodes = Some [],
      search_query = None, limit = Some 100, skip = Some 0\<rparr>"

definition ex_two_sources :: GraphFilterRequest where
  "ex_two_sources =
     \<lparr>source_nodes =
        Some [\<lparr>node_types = [''A''], node_property_filters = [], logical_operator = AND\<rparr>,
              \<lparr>node_types = [''B''], node_property_filters = [], logical_operator = AND\<rparr>],
      relationships = Some [], target_nodes = Some [], search_query = None,
      limit = Some 100, skip = Some 0\<rparr>"

definition ex_single_hop :: GraphFilterRequest where
  "ex_single_hop =
     \<lparr>source_nodes = Some [],
      relationships = Some [\<lparr>relationship_types = [''SEND_TO''], rel_property_filters = [],
                              direction = Some OUTGOING, min_depth = 1, max_depth = 1\<rparr>],
      target_nodes = Some [], search_query = None, limit = Some 50, skip = Some 0\<rparr>"

definition ex_depth_1_2 :: GraphFilterRequest where
  "ex_depth_1_2 =
     \<lparr>source_nodes = Some [],
      relationships = Some [\<lparr>relationship_types = [''SEND_TO''], rel_property_filters = [],
                              direction = Some OUTGOING, min_depth = 1, max_depth = 2\<rparr>],
      target_nodes = Some [], search_query = None, limit = Some 50, skip = Some 0\<rparr>"

definition ex_depth_2_3 :: GraphFilterRequest where
  "ex_depth_2_3 =
     \<lparr>source_nodes = Some [],
      relationships = Some [\<lparr>relationship_types = [], rel_property_filters = [],
                              direction = Some OUTGOING, min_depth = 2, max_depth = 3\<rparr>],
      target_nodes = Some [], search_query = None, limit = Some 50, skip = Some 0\<rparr>"



section \<open>The text of a compiled query\<close>

lemma property_loop_texts:
  "fst (property_loop pfs var p_key (conds, params)) = conds @ property_conditions pfs var p_key"
proof (induction pfs arbitrary: conds params)
  case Nil
  then show ?case by (simp add: property_conditions_def)
next
  case (Cons pf pfs)
  obtain c p where cp: "build_property_condition pf var p_key = (c, p)"
    by (cases "build_property_condition pf var p_key")
  show ?case using Cons.IH by (simp add: cp property_conditions_def)
qed

lemma node_blocks_loop_texts:
  "fst (node_blocks_loop ics var prefix (blocks, params)) =
     blocks @ filter (\<lambda>b. b \<noteq> []) (map (\<lambda>(i, c). fst (build_node_block c var i prefix)) ics)"
proof (induction ics arbitrary: blocks params)
  case Nil
  then show ?case by simp
next
  case (Cons ic ics)
  obtain i c where ic: "ic = (i, c)" by (cases ic)
  obtain b p where bp: "build_node_block c var i prefix = (b, p)"
    by (cases "build_node_block c var i prefix")
  show ?case using Cons.IH by (simp add: ic bp)
qed

lemma rel_blocks_loop_texts:
  "fst (rel_blocks_loop ics variable (blocks, params)) =
     blocks @ filter (\<lambda>b. b \<noteq> [])
       (map (\<lambda>(i, c). fst (if variable then build_rel_block_variable c ''p'' i
                              else build_rel_block_simple c i)) ics)"
proof (induction ics arbitrary: blocks params)
  case Nil
  then show ?case by simp
next
  case (Cons ic ics)
  obtain i c where ic: "ic = (i, c)" by (cases ic)
  show ?case
  proof (cases variable)
    case True
    obtain b p where bp: "build_rel_block_variable c ''p'' i = (b, p)"
      by (cases "build_rel_block_variable c ''p'' i")
    show ?thesis using Cons.IH by (simp add: ic bp True)
  next
    case False
    obtain b p where bp: "build_rel_block_simple c i = (b, p)"
      by (cases "build_rel_block_simple c i")
    show ?thesis using Cons.IH by (simp add: ic bp False)
  qed
qed

lemma node_group_texts:
  "fst (node_group cs var prefix (wheres, params)) =
     wheres @ or_group (node_block_texts cs var prefix)"
proof (cases "cs = []")
  case True
  then show ?thesis by (simp add: node_group_def or_group_def node_block_texts_def)
next
  case False
  obtain bs ps where l: "node_blocks_loop (enumerate 0 cs) var prefix ([], params) = (bs, ps)"
    by (cases "node_blocks_loop (enumerate 0 cs) var prefix ([], params)")
  have "bs = node_block_texts cs var prefix"
    using node_blocks_loop_texts[of "enumerate 0 cs" var prefix "[]" params] l
    by (simp add: node_block_texts_def)
  then show ?thesis using False l by (simp add: node_group_def or_group_def)
qed

lemma rel_group_texts:
  "fst (rel_group cs variable (wheres, params)) =
     wheres @ or_group (rel_block_texts cs variable)"
proof (cases "cs = []")
  case True
  then show ?thesis by (simp add: rel_group_def or_group_def rel_block_texts_def)
next
  case False
  obtain bs ps where l: "rel_blocks_loop (enumerate 0 cs) variable ([], params) = (bs, ps)"
    by (cases "rel_blocks_loop (enumerate 0 cs) variable ([], params)")
  have "bs = rel_block_texts cs variable"
    using rel_blocks_loop_texts[of "enumerate 0 cs" variable "[]" params] l
    by (simp add: rel_block_texts_def)
  then show ?thesis using False l by (simp add: rel_group_def or_group_def)
qed

lemma relationship_query_text:
  "fst (relationship_query req rels) =
     (if use_variable_path rels
      then ''MATCH p = (n)-[*1..'' @ str_int (max_default (map max_depth rels) 1) @ '']-(m)''
      else ''MATCH (n)-[r]-(m)'')
     @ where_clause (or_group (node_block_texts (or_empty (source_nodes req)) ''n'' ''s'')
                     @ or_group (node_block_texts (or_empty (target_nodes req)) ''m'' ''t'')
                     @ or_group (rel_block_texts rels (use_variable_path rels)))
     @ (if use_variable_path rels then ''\<newline>WITH n, m, p, last(relationships(p)) as r'' else [])
     @ ''\<newline>RETURN n, r, m, type(r) as rel_type, id(r) as rel_id''
     @ pagination req"
proof -
  obtain w1 p1 where
    g1: "node_group (or_empty (source_nodes req)) ''n'' ''s'' ([], []) = (w1, p1)"
    by (cases "node_group (or_empty (source_nodes req)) ''n'' ''s'' ([], [])")
  obtain w2 p2 where
    g2: "node_group (or_empty (target_nodes req)) ''m'' ''t'' (w1, p1) = (w2, p2)"
    by (cases "node_group (or_empty (target_nodes req)) ''m'' ''t'' (w1, p1)")
  obtain w3 p3 where
    g3: "rel_group rels (use_variable_path rels) (w2, p2) = (w3, p3)"
    by (cases "rel_group rels (use_variable_path rels) (w2, p2)")
  have w1: "w1 = or_group (node_block_texts (or_empty (source_nodes req)) ''n'' ''s'')"
    using node_group_texts[of "or_empty (source_nodes req)" "''n''" "''s''" "[]" "[]"] g1
    by simp
  have w2: "w2 = w1 @ or_group (node_block_texts (or_empty (target_nodes req)) ''m'' ''t'')"
    using node_group_texts[of "or_empty (target_nodes req)" "''m''" "''t''" w1 p1] g2 by simp
  have w3: "w3 = w2 @ or_group (rel_block_texts rels (use_variable_path rels))"
    using rel_group_texts[of rels "use_variable_path rels" w2 p2] g3 by simp
  show ?thesis
    unfolding relationship_query_def Let_def g1 g2 g3 prod.case fst_conv
      where_clause_def pagination_def
    using w1 w2 w3 by simp
qed

lemma build_relationship_query_Some:
  "relationships req = Some rels \<Longrightarrow>
   build_relationship_query req = Inr (relationship_query req rels)"
  by (simp add: build_relationship_query_def)

lemma build_node_query_text:
  "fst (build_node_query req) =
     ''MATCH (n)''
     @ where_clause (or_group (node_block_texts (or_empty (source_nodes req)) ''n'' ''s'')
                     @ (if truthy (search_query req) then [search_clause] else []))
     @ ''\<newline>RETURN n, labels(n) as node_labels, id(n) as node_id''
     @ pagination req"
proof -
  obtain w1 p1 where
    g1: "node_group (or_empty (source_nodes req)) ''n'' ''s'' ([], []) = (w1, p1)"
    by (cases "node_group (or_empty (source_nodes req)) ''n'' ''s'' ([], [])")
  have w1: "w1 = or_group (node_block_texts (or_empty (source_nodes req)) ''n'' ''s'')"
    using node_group_texts[of "or_empty (source_nodes req)" "''n''" "''s''" "[]" "[]"] g1
    by simp
  show ?thesis
    unfolding build_node_query_def Let_def g1 prod.case where_clause_def pagination_def
    using w1 by (simp add: truthy_def split: option.splits)
qed

lemma build_node_query_nonempty: "fst (build_node_query req) \<noteq> []"
  by (simp add: build_node_query_text)

lemma relationship_query_nonempty: "fst (relationship_query req rels) \<noteq> []"
  by (simp add: relationship_query_text)

lemma rel_block_start:
  "property_loop (rel_property_filters c) ''r'' (''rel'' @ str_nat i)
     (if relationship_types c \<noteq> [] then [''type(r) IN $'' @ (''rel'' @ str_nat i) @ ''_types'']
      else [],
      if relationship_types c \<noteq> []
      then dict_set [] ((''rel'' @ str_nat i) @ ''_types'') (VList (map VStr (relationship_types c)))
      else []) = (cs, ps) \<Longrightarrow> cs = rel_conds c i"
  using property_loop_texts[of "rel_property_filters c" "''r''" "''rel'' @ str_nat i"
      "if relationship_types c \<noteq> [] then [''type(r) IN $'' @ (''rel'' @ str_nat i) @ ''_types'']
       else []"
      "if relationship_types c \<noteq> []
       then dict_set [] ((''rel'' @ str_nat i) @ ''_types'') (VList (map VStr (relationship_types c)))
       else []"]
  by (simp add: rel_conds_def)

lemma build_rel_block_variable_text:
  "fst (build_rel_block_variable c ''p'' i) =
     ''((length(p) >= '' @ str_int (min_depth c) @ '' AND length(p) <= '' @ str_int (max_depth c)
       @ '') AND ALL(r IN relationships(p) WHERE ''
       @ (if rel_conds c i = [] then ''true'' else join_str '' AND '' (rel_conds c i)) @ ''))''"
proof -
  let ?k = "''rel'' @ str_nat i"
  let ?c0 = "if relationship_types c \<noteq> [] then [''type(r) IN $'' @ ?k @ ''_types''] else []"
  let ?p0 = "if relationship_types c \<noteq> []
             then dict_set [] (?k @ ''_types'') (VList (map VStr (relationship_types c))) else []"
  obtain cs ps where l: "property_loop (rel_property_filters c) ''r'' ?k (?c0, ?p0) = (cs, ps)"
    by (cases "property_loop (rel_property_filters c) ''r'' ?k (?c0, ?p0)")
  have cs: "cs = rel_conds c i"
    using rel_block_start[OF l] .
  show ?thesis
  proof (cases "relationship_types c = []")
    case True
    then show ?thesis using l cs by (simp add: build_rel_block_variable_def Let_def)
  next
    case False
    then show ?thesis using l cs by (simp add: build_rel_block_variable_def Let_def)
  qed
qed

lemma build_rel_block_simple_text:
  "fst (build_rel_block_simple c i) =
     (if rel_conds c i @ direction_conds c = [] then []
      else ''('' @ join_str '' AND '' (rel_conds c i @ direction_conds c) @ '')'')"
proof -
  let ?k = "''rel'' @ str_nat i"
  let ?c0 = "if relationship_types c \<noteq> [] then [''type(r) IN $'' @ ?k @ ''_types''] else []"
  let ?p0 = "if relationship_types c \<noteq> []
             then dict_set [] (?k @ ''_types'') (VList (map VStr (relationship_types c))) else []"
  obtain cs ps where l: "property_loop (rel_property_filters c) ''r'' ?k (?c0, ?p0) = (cs, ps)"
    by (cases "property_loop (rel_property_filters c) ''r'' ?k (?c0, ?p0)")
  have cs: "cs = rel_conds c i"
    using rel_block_start[OF l] .
  show ?thesis
  proof (cases "relationship_types c = []")
    case True
    then show ?thesis using l cs
      by (simp add: build_rel_block_simple_def Let_def direction_conds_def)
  next
    case False
    then show ?thesis using l cs
      by (simp add: build_rel_block_simple_def Let_def direction_conds_def)
  qed
qed

lemma build_rel_block_variable_nonempty: "fst (build_rel_block_variable c ''p'' i) \<noteq> []"
  by (simp add: build_rel_block_variable_text)

lemma rel_block_texts_variable:
  "rel_block_texts cs True =
     map (\<lambda>(i, c). fst (build_rel_block_variable c ''p'' i)) (enumerate 0 cs)"
proof -
  have "\<forall>b \<in> set (map (\<lambda>(i, c). fst (build_rel_block_variable c ''p'' i)) (enumerate 0 cs)).
          b \<noteq> []"
    using build_rel_block_variable_nonempty by auto
  then show ?thesis
    unfolding rel_block_texts_def by (simp add: filter_id_conv)
qed

lemma use_variable_path_iff:
  "use_variable_path rels \<longleftrightarrow> \<not> (\<forall>r \<in> set rels. min_depth r = 1 \<and> max_depth r = 1)"
  by (auto simp: use_variable_path_def list_ex_iff)

lemma max_default_Max: "xs \<noteq> [] \<Longrightarrow> max_default xs d = Max (set xs)"
  by (cases xs) (simp_all add: Max.set_eq_fold [symmetric])

lemma min_default_Min: "xs \<noteq> [] \<Longrightarrow> min_default xs d = Min (set xs)"
  by (cases xs) (simp_all add: Min.set_eq_fold [symmetric])

lemma variable_match_line:
  "use_variable_path rels \<Longrightarrow>
   max_default (map max_depth rels) 1 = Max (max_depth ` set rels)"
proof -
  assume "use_variable_path rels"
  then have "rels \<noteq> []"
    by (auto simp: use_variable_path_def)
  then show ?thesis by (simp add: max_default_Max)
qed

section \<open>Depth bounds of the path pattern\<close>

text \<open>
  C3, as stated, fails: with one relationship block of depth 2 to 3 the envelope
  is [2, 3], and the pattern the builder emits is \<open>[*1..3]\<close>: its lower bound is
  the constant 1.
\<close>

theorem envelope_lower_bound_counterexample:
  "use_variable_path (or_empty (relationships ex_depth_2_3))
   \<and> min_default (map min_depth (or_empty (relationships ex_depth_2_3))) 1 = 2
   \<and> max_default (map max_depth (or_empty (relationships ex_depth_2_3))) 1 = 3
   \<and> build_relationship_query ex_depth_2_3 =
       Inr (''MATCH p = (n)-[*1..3]-(m)\<newline>WHERE (((length(p) >= 2 AND length(p) <= 3) AND ALL(r IN relationships(p) WHERE true)))\<newline>WITH n, m, p, last(relationships(p)) as r\<newline>RETURN n, r, m, type(r) as rel_type, id(r) as rel_id\<newline>SKIP 0 LIMIT 50'',
            [])"
  by code_simp

text \<open>
  C3 (amended): for every request compiled in variable-length mode, the path
  pattern is \<open>[*1..global_max]\<close>, where \<open>global_max\<close> is the maximum over the
  relationship blocks of \<open>max_depth\<close> and the lower bound is always 1; the
  relationship group of the \<open>WHERE\<close> clause is the \<open>OR\<close> of the blocks' predicates
  in index order, and each block's predicate asserts that the length of the path
  lies within that block's own \<open>min_depth\<close> and \<open>max_depth\<close>, and that all
  relationships of the path satisfy the block's conditions.
\<close>

theorem variable_path_envelope:
  assumes "relationships req = Some rels" and "use_variable_path rels"
  shows "build_relationship_query req = Inr (relationship_query req rels)
         \<and> fst (relationship_query req rels) =
           ''MATCH p = (n)-[*1..'' @ str_int (Max (max_depth ` set rels)) @ '']-(m)''
           @ where_clause (or_group (node_block_texts (or_empty (source_nodes req)) ''n'' ''s'')
               @ or_group (node_block_texts (or_empty (target_nodes req)) ''m'' ''t'')
               @ or_group (map (\<lambda>(i, c). fst (build_rel_block_variable c ''p'' i))
                             (enumerate 0 rels)))
           @ ''\<newline>WITH n, m, p, last(relationships(p)) as r''
           @ ''\<newline>RETURN n, r, m, type(r) as rel_type, id(r) as rel_id''
           @ pagination req
         \<and> (\<forall>c i. fst (build_rel_block_variable c ''p'' i) =
               ''((length(p) >= '' @ str_int (min_depth c) @ '' AND length(p) <= ''
                 @ str_int (max_depth c) @ '') AND ALL(r IN relationships(p) WHERE ''
                 @ (if rel_conds c i = [] then ''true'' else join_str '' AND '' (rel_conds c i))
                 @ ''))'')"
  using assms variable_match_line[OF assms(2)]
  by (simp add: build_relationship_query_Some relationship_query_text rel_block_texts_variable
      build_rel_block_variable_text)

theorem variable_path_envelope_witness:
  "relationships ex_depth_1_2 =
     Some [\<lparr>relationship_types = [''SEND_TO''], rel_property_filters = [],
             direction = Some OUTGOING, min_depth = 1, max_depth = 2\<rparr>]
   \<and> use_variable_path [\<lparr>relationship_types = [''SEND_TO''], rel_property_filters = [],
             direction = Some OUTGOING, min_depth = 1, max_depth = 2\<rparr>]
   \<and> (\<exists>ps. build_relationship_query ex_depth_1_2 =
       Inr (''MATCH p = (n)-[*1..2]-(m)\<newline>WHERE (((length(p) >= 1 AND length(p) <= 2) AND ALL(r IN relationships(p) WHERE type(r) IN $rel0_types)))\<newline>WITH n, m, p, last(relationships(p)) as r\<newline>RETURN n, r, m, type(r) as rel_type, id(r) as rel_id\<newline>SKIP 0 LIMIT 50'',
            ps))"
proof -
  let ?rels = "[\<lparr>relationship_types = [''SEND_TO''], rel_property_filters = [],
             direction = Some OUTGOING, min_depth = 1, max_depth = 2\<rparr>]"
  have r: "relationships ex_depth_1_2 = Some ?rels" by (simp add: ex_depth_1_2_def)
  have h: "use_variable_path ?rels" by code_simp
  have t: "''MATCH p = (n)-[*1..'' @ str_int (Max (max_depth ` set ?rels)) @ '']-(m)''
           @ where_clause (or_group (node_block_texts (or_empty (source_nodes ex_depth_1_2)) ''n'' ''s'')
               @ or_group (node_block_texts (or_empty (target_nodes ex_depth_1_2)) ''m'' ''t'')
               @ or_group (map (\<lambda>(i, c). fst (build_rel_block_variable c ''p'' i))
                             (enumerate 0 ?rels)))
           @ ''\<newline>WITH n, m, p, last(relationships(p)) as r''
           @ ''\<newline>RETURN n, r, m, type(r) as rel_type, id(r) as rel_id''
           @ pagination ex_depth_1_2 =
       ''MATCH p = (n)-[*1..2]-(m)\<newline>WHERE (((length(p) >= 1 AND length(p) <= 2) AND ALL(r IN relationships(p) WHERE type(r) IN $rel0_types)))\<newline>WITH n, m, p, last(relationships(p)) as r\<newline>RETURN n, r, m, type(r) as rel_type, id(r) as rel_id\<newline>SKIP 0 LIMIT 50''"
    by code_simp
  from variable_path_envelope[OF r h] t
  have "build_relationship_query ex_depth_1_2 = Inr (relationship_query ex_depth_1_2 ?rels)"
    and "fst (relationship_query ex_depth_1_2 ?rels) =
       ''MATCH p = (n)-[*1..2]-(m)\<newline>WHERE (((length(p) >= 1 AND length(p) <= 2) AND ALL(r IN relationships(p) WHERE type(r) IN $rel0_types)))\<newline>WITH n, m, p, last(relationships(p)) as r\<newline>RETURN n, r, m, type(r) as rel_type, id(r) as rel_id\<newline>SKIP 0 LIMIT 50''"
    by simp_all
  then have "\<exists>ps. build_relationship_query ex_depth_1_2 =
       Inr (''MATCH p = (n)-[*1..2]-(m)\<newline>WHERE (((length(p) >= 1 AND length(p) <= 2) AND ALL(r IN relationships(p) WHERE type(r) IN $rel0_types)))\<newline>WITH n, m, p, last(relationships(p)) as r\<newline>RETURN n, r, m, type(r) as rel_type, id(r) as rel_id\<newline>SKIP 0 LIMIT 50'',
            ps)"
    by (metis prod.collapse)
  with r h show ?thesis by blast
qed

section \<open>Validation\<close>

text \<open>
  C5: validation is claimed to raise a structured \<open>InvalidFilterException\<close> whenever
  no criteria of any kind are present. A request body with \<open>"source_nodes": null\<close>
  (the field is declared \<open>Optional\<close>) and no other criterion satisfies every field
  constraint, carries no criterion, and makes \<open>_validate_filter_request\<close> raise
  \<open>TypeError\<close> at \<open>len(filter_request.source_nodes)\<close>; \<open>filter_nodes\<close> and
  \<open>filter_relationships\<close> fail with that \<open>TypeError\<close>. With the empty list in
  place of \<open>null\<close> the exception is the \<open>InvalidFilterException\<close>.
\<close>

theorem null_sources_raise_type_error:
  "field_constraints ex_null_sources
   \<and> validate_filter_request ex_null_sources = Inl TypeError
   \<and> filter_nodes (\<lambda>q p. Inr []) ex_null_sources = Inl TypeError
   \<and> filter_relationships (\<lambda>q p. Inr []) ex_null_sources = Inl TypeError
   \<and> validate_filter_request ex_no_criteria =
       Inl (InvalidFilterException
         \<lparr>message = ''At least one filter criterion (Source, Relationship, Target, or Search) must be provided'',
          status_code = 400, details = [(''filter_type'', ''request'')]\<rparr>)"
  by code_simp

text \<open>What the validation does on requests whose three lists are lists.\<close>

lemma validate_rejects_no_criteria:
  "source_nodes req = Some [] \<Longrightarrow> relationships req = Some [] \<Longrightarrow>
   target_nodes req = Some [] \<Longrightarrow>
   (search_query req = None \<or> (\<exists>s. search_query req = Some s \<and> strip s = [])) \<Longrightarrow>
   validate_filter_request req = Inl (InvalidFilterException
     \<lparr>message = ''At least one filter criterion (Source, Relationship, Target, or Search) must be provided'',
      status_code = 400, details = [(''filter_type'', ''request'')]\<rparr>)"
  by (auto simp: validate_filter_request_def InvalidFilterException_init_def truthy_def
      details_or_empty_def)

lemma validate_rejects_limit:
  "source_nodes req = Some ss \<Longrightarrow> relationships req = Some rs \<Longrightarrow>
   target_nodes req = Some ts \<Longrightarrow> limit req = Some l \<Longrightarrow> l < 1 \<Longrightarrow>
   \<exists>f. validate_filter_request req = Inl (InvalidFilterException f)"
  by (auto simp: validate_filter_request_def InvalidFilterException_init_def Let_def
      split: option.splits)

lemma validate_Inr_lists:
  "validate_filter_request req = Inr () \<Longrightarrow>
   \<exists>ss rs ts. source_nodes req = Some ss \<and> relationships req = Some rs
              \<and> target_nodes req = Some ts"
  by (auto simp: validate_filter_request_def split: option.splits)

lemma filter_nodes_stops_at_validation:
  "validate_filter_request req = Inl e \<Longrightarrow> filter_nodes exec req = Inl e"
  by (simp add: filter_nodes_def)

lemma filter_relationships_stops_at_validation:
  "validate_filter_request req = Inl e \<Longrightarrow> filter_relationships exec req = Inl e"
  by (simp add: filter_relationships_def)

section \<open>Failures of the store\<close>

lemma QueryExecutionException_init_details:
  "q \<noteq> [] \<Longrightarrow>
   QueryExecutionException_init msg (Some q) (Some e) None None =
     QueryExecutionException \<lparr>message = msg, status_code = 500,
       details = (''query'', take 500 q @ (if 500 < length q then ''... (truncated)'' else []))
                 # (if e = [] then [] else [(''cypher_error'', e)])\<rparr>"
  by (simp add: QueryExecutionException_init_def truthy_def details_or_empty_def Let_def)

text \<open>
  C6: when the request passes validation and the store fails with message \<open>e\<close>,
  \<open>filter_nodes\<close> and \<open>filter_relationships\<close> raise a \<open>QueryExecutionException\<close> whose
  details are exactly: under \<open>query\<close> the first 500 characters of the query text,
  followed by \<open>... (truncated)\<close> when the text was longer, and under \<open>cypher_error\<close>
  the store's message (the entry is left out when the message is empty). There
  is no other entry, so the parameter map is not in the details. A request that
  passes validation has a relationship query: the builder does not fail on it.
\<close>

theorem store_failure_is_wrapped:
  assumes "validate_filter_request req = Inr ()"
  shows "(exec (fst (build_node_query req)) (snd (build_node_query req)) = Inl e \<longrightarrow>
            filter_nodes exec req =
              Inl (QueryExecutionException \<lparr>message = ''Failed to execute node query'',
                     status_code = 500,
                     details =
                       (''query'', take 500 (fst (build_node_query req))
                          @ (if 500 < length (fst (build_node_query req))
                             then ''... (truncated)'' else []))
                       # (if e = [] then [] else [(''cypher_error'', e)])\<rparr>))
       \<and> (\<exists>q ps. build_relationship_query req = Inr (q, ps))
       \<and> (\<forall>q ps. build_relationship_query req = Inr (q, ps) \<longrightarrow> exec' q ps = Inl e \<longrightarrow>
            filter_relationships exec' req =
              Inl (QueryExecutionException \<lparr>message = ''Failed to execute relationship query'',
                     status_code = 500,
                     details =
                       (''query'', take 500 q
                          @ (if 500 < length q then ''... (truncated)'' else []))
                       # (if e = [] then [] else [(''cypher_error'', e)])\<rparr>))"
proof -
  obtain q ps where n: "build_node_query req = (q, ps)" by (cases "build_node_query req")
  have q: "q \<noteq> []" using build_node_query_nonempty[of req] n by simp
  obtain rs where rs: "relationships req = Some rs"
    using validate_Inr_lists[OF assms] by blast
  have b: "build_relationship_query req = Inr (relationship_query req rs)"
    using rs by (rule build_relationship_query_Some)
  have 1: "exec q ps = Inl e \<longrightarrow>
            filter_nodes exec req =
              Inl (QueryExecutionException \<lparr>message = ''Failed to execute node query'',
                     status_code = 500,
                     details =
                       (''query'', take 500 q @ (if 500 < length q then ''... (truncated)'' else []))
                       # (if e = [] then [] else [(''cypher_error'', e)])\<rparr>)"
    using assms q by (simp add: filter_nodes_def n QueryExecutionException_init_details)
  have 2: "\<exists>q ps. build_relationship_query req = Inr (q, ps)"
    using b by (metis prod.collapse)
  have 3: "\<And>q' ps'. build_relationship_query req = Inr (q', ps') \<Longrightarrow> exec' q' ps' = Inl e \<Longrightarrow>
            filter_relationships exec' req =
              Inl (QueryExecutionException \<lparr>message = ''Failed to execute relationship query'',
                     status_code = 500,
                     details =
                       (''query'', take 500 q'
                          @ (if 500 < length q' then ''... (truncated)'' else []))
                       # (if e = [] then [] else [(''cypher_error'', e)])\<rparr>)"
  proof -
    fix q' ps' assume a: "build_relationship_query req = Inr (q', ps')" and x: "exec' q' ps' = Inl e"
    from a b have "relationship_query req rs = (q', ps')" by simp
    then have "q' \<noteq> []" using relationship_query_nonempty[of req rs] by simp
    then show "filter_relationships exec' req =
              Inl (QueryExecutionException \<lparr>message = ''Failed to execute relationship query'',
                     status_code = 500,
                     details =
                       (''query'', take 500 q'
                          @ (if 500 < length q' then ''... (truncated)'' else []))
                       # (if e = [] then [] else [(''cypher_error'', e)])\<rparr>)"
      using assms a x by (simp add: filter_relationships_def QueryExecutionException_init_details)
  qed
  from 1 2 3 n show ?thesis by simp
qed

theorem store_failure_is_wrapped_witness:
  "validate_filter_request ex_person_request = Inr ()
   \<and> filter_nodes (\<lambda>q p. Inl ''connection reset'') ex_person_request =
       Inl (QueryExecutionException \<lparr>message = ''Failed to execute node query'',
              status_code = 500,
              details = [(''query'', ''MATCH (n)\<newline>WHERE ((any(l IN labels(n) WHERE l IN $s0_labels)))\<newline>RETURN n, labels(n) as node_labels, id(n) as node_id\<newline>SKIP 0 LIMIT 10''),
                         (''cypher_error'', ''connection reset'')]\<rparr>)"
proof -
  have h: "validate_filter_request ex_person_request = Inr ()" by code_simp
  have t: "fst (build_node_query ex_person_request) =
     ''MATCH (n)\<newline>WHERE ((any(l IN labels(n) WHERE l IN $s0_labels)))\<newline>RETURN n, labels(n) as node_labels, id(n) as node_id\<newline>SKIP 0 LIMIT 10''"
    by code_simp
  from store_failure_is_wrapped[OF h, of "\<lambda>q p. Inl ''connection reset''" "''connection reset''"]
    h t
  show ?thesis by simp
qed

section \<open>The response of the counting entry points\<close>



section \<open>Single hop or variable length\<close>

text \<open>
  C7: when every relationship block has \<open>min_depth = 1\<close> and \<open>max_depth = 1\<close> (also
  when there is no block), the query is the single-hop one: the pattern
  \<open>(n)-[r]-(m)\<close> and, for each block, the conjunction of its type test, property
  conditions and direction test only. Otherwise the whole request is compiled in
  variable-length phrasing: the path pattern, and for every block the predicate
  with the length test and the quantifier over the relationships of the path.
\<close>

theorem single_hop_iff_all_depths_one:
  assumes "relationships req = Some rels"
  shows "build_relationship_query req = Inr (relationship_query req rels)
   \<and> (if \<forall>r \<in> set rels. min_depth r = 1 \<and> max_depth r = 1
    then fst (relationship_query req rels) =
           ''MATCH (n)-[r]-(m)''
           @ where_clause (or_group (node_block_texts (or_empty (source_nodes req)) ''n'' ''s'')
               @ or_group (node_block_texts (or_empty (target_nodes req)) ''m'' ''t'')
               @ or_group (filter (\<lambda>b. b \<noteq> [])
                    (map (\<lambda>(i, c). fst (build_rel_block_simple c i)) (enumerate 0 rels))))
           @ ''\<newline>RETURN n, r, m, type(r) as rel_type, id(r) as rel_id''
           @ pagination req
    else fst (relationship_query req rels) =
           ''MATCH p = (n)-[*1..'' @ str_int (Max (max_depth ` set rels)) @ '']-(m)''
           @ where_clause (or_group (node_block_texts (or_empty (source_nodes req)) ''n'' ''s'')
               @ or_group (node_block_texts (or_empty (target_nodes req)) ''m'' ''t'')
               @ or_group (map (\<lambda>(i, c). fst (build_rel_block_variable c ''p'' i))
                             (enumerate 0 rels)))
           @ ''\<newline>WITH n, m, p, last(relationships(p)) as r''
           @ ''\<newline>RETURN n, r, m, type(r) as rel_type, id(r) as rel_id''
           @ pagination req)
   \<and> (\<forall>c i. fst (build_rel_block_simple c i) =
         (if rel_conds c i @ direction_conds c = [] then []
          else ''('' @ join_str '' AND '' (rel_conds c i @ direction_conds c) @ '')''))"
proof (cases "use_variable_path rels")
  case True
  then have "\<not> (\<forall>r \<in> set rels. min_depth r = 1 \<and> max_depth r = 1)"
    by (simp add: use_variable_path_iff)
  then show ?thesis
    using True variable_match_line[OF True] assms
    by (simp add: build_relationship_query_Some relationship_query_text
        rel_block_texts_variable build_rel_block_simple_text)
next
  case False
  then have "\<forall>r \<in> set rels. min_depth r = 1 \<and> max_depth r = 1"
    by (simp add: use_variable_path_iff)
  then show ?thesis
    using False assms
    by (simp add: build_relationship_query_Some relationship_query_text rel_block_texts_def
        build_rel_block_simple_text)
qed

theorem single_hop_iff_all_depths_one_witness:
  "map (\<lambda>r. (min_depth r, max_depth r)) (or_empty (relationships ex_single_hop)) = [(1, 1)]
   \<and> map_sum id fst (build_relationship_query ex_single_hop) =
       Inr ''MATCH (n)-[r]-(m)\<newline>WHERE ((type(r) IN $rel0_types AND startNode(r) = n))\<newline>RETURN n, r, m, type(r) as rel_type, id(r) as rel_id\<newline>SKIP 0 LIMIT 50''
   \<and> map (\<lambda>r. (min_depth r, max_depth r)) (or_empty (relationships ex_depth_1_2)) = [(1, 2)]
   \<and> map_sum id fst (build_relationship_query ex_depth_1_2) =
       Inr ''MATCH p = (n)-[*1..2]-(m)\<newline>WHERE (((length(p) >= 1 AND length(p) <= 2) AND ALL(r IN relationships(p) WHERE type(r) IN $rel0_types)))\<newline>WITH n, m, p, last(relationships(p)) as r\<newline>RETURN n, r, m, type(r) as rel_type, id(r) as rel_id\<newline>SKIP 0 LIMIT 50''"
proof -
  let ?r1 = "[\<lparr>relationship_types = [''SEND_TO''], rel_property_filters = [],
             direction = Some OUTGOING, min_depth = 1, max_depth = 1\<rparr>]"
  let ?r2 = "[\<lparr>relationship_types = [''SEND_TO''], rel_property_filters = [],
             direction = Some OUTGOING, min_depth = 1, max_depth = 2\<rparr>]"
  have s1: "relationships ex_single_hop = Some ?r1" by (simp add: ex_single_hop_def)
  have s2: "relationships ex_depth_1_2 = Some ?r2" by (simp add: ex_depth_1_2_def)
  have a': "''MATCH (n)-[r]-(m)''
           @ where_clause (or_group (node_block_texts (or_empty (source_nodes ex_single_hop)) ''n'' ''s'')
               @ or_group (node_block_texts (or_empty (target_nodes ex_single_hop)) ''m'' ''t'')
               @ or_group (filter (\<lambda>b. b \<noteq> [])
                    (map (\<lambda>(i, c). fst (build_rel_block_simple c i)) (enumerate 0 ?r1))))
           @ ''\<newline>RETURN n, r, m, type(r) as rel_type, id(r) as rel_id''
           @ pagination ex_single_hop =
       ''MATCH (n)-[r]-(m)\<newline>WHERE ((type(r) IN $rel0_types AND startNode(r) = n))\<newline>RETURN n, r, m, type(r) as rel_type, id(r) as rel_id\<newline>SKIP 0 LIMIT 50''"
    by code_simp
  have b': "''MATCH p = (n)-[*1..'' @ str_int (Max (max_depth ` set ?r2)) @ '']-(m)''
           @ where_clause (or_group (node_block_texts (or_empty (source_nodes ex_depth_1_2)) ''n'' ''s'')
               @ or_group (node_block_texts (or_empty (target_nodes ex_depth_1_2)) ''m'' ''t'')
               @ or_group (map (\<lambda>(i, c). fst (build_rel_block_variable c ''p'' i))
                             (enumerate 0 ?r2)))
           @ ''\<newline>WITH n, m, p, last(relationships(p)) as r''
           @ ''\<newline>RETURN n, r, m, type(r) as rel_type, id(r) as rel_id''
           @ pagination ex_depth_1_2 =
       ''MATCH p = (n)-[*1..2]-(m)\<newline>WHERE (((length(p) >= 1 AND length(p) <= 2) AND ALL(r IN relationships(p) WHERE type(r) IN $rel0_types)))\<newline>WITH n, m, p, last(relationships(p)) as r\<newline>RETURN n, r, m, type(r) as rel_type, id(r) as rel_id\<newline>SKIP 0 LIMIT 50''"
    by code_simp
  have c1: "\<forall>r \<in> set ?r1. min_depth r = 1 \<and> max_depth r = 1" by simp
  have c2: "\<not> (\<forall>r \<in> set ?r2. min_depth r = 1 \<and> max_depth r = 1)" by simp
  note t1 = single_hop_iff_all_depths_one[OF s1]
  note t2 = single_hop_iff_all_depths_one[OF s2]
  have g1: "fst (relationship_query ex_single_hop ?r1) =
       ''MATCH (n)-[r]-(m)\<newline>WHERE ((type(r) IN $rel0_types AND startNode(r) = n))\<newline>RETURN n, r, m, type(r) as rel_type, id(r) as rel_id\<newline>SKIP 0 LIMIT 50''"
    using t1[THEN conjunct2, THEN conjunct1] unfolding if_P[OF c1] a' .
  have g2: "fst (relationship_query ex_depth_1_2 ?r2) =
       ''MATCH p = (n)-[*1..2]-(m)\<newline>WHERE (((length(p) >= 1 AND length(p) <= 2) AND ALL(r IN relationships(p) WHERE type(r) IN $rel0_types)))\<newline>WITH n, m, p, last(relationships(p)) as r\<newline>RETURN n, r, m, type(r) as rel_type, id(r) as rel_id\<newline>SKIP 0 LIMIT 50''"
    using t2[THEN conjunct2, THEN conjunct1] unfolding if_not_P[OF c2] b' .
  have 1: "map_sum id fst (build_relationship_query ex_single_hop) =
       Inr ''MATCH (n)-[r]-(m)\<newline>WHERE ((type(r) IN $rel0_types AND startNode(r) = n))\<newline>RETURN n, r, m, type(r) as rel_type, id(r) as rel_id\<newline>SKIP 0 LIMIT 50''"
    by (simp only: t1[THEN conjunct1] map_sum.simps g1)
  have 2: "map_sum id fst (build_relationship_query ex_depth_1_2) =
       Inr ''MATCH p = (n)-[*1..2]-(m)\<newline>WHERE (((length(p) >= 1 AND length(p) <= 2) AND ALL(r IN relationships(p) WHERE type(r) IN $rel0_types)))\<newline>WITH n, m, p, last(relationships(p)) as r\<newline>RETURN n, r, m, type(r) as rel_type, id(r) as rel_id\<newline>SKIP 0 LIMIT 50''"
    by (simp only: t2[THEN conjunct1] map_sum.simps g2)
  have c: "map (\<lambda>r. (min_depth r, max_depth r)) (or_empty (relationships ex_single_hop)) = [(1, 1)]"
    by (simp add: ex_single_hop_def or_empty_def)
  have d: "map (\<lambda>r. (min_depth r, max_depth r)) (or_empty (relationships ex_depth_1_2)) = [(1, 2)]"
    by (simp add: ex_depth_1_2_def or_empty_def)
  from c d 1 2 show ?thesis by blast
qed

section \<open>Blocks, groups and the WHERE clause\<close>

text \<open>
  C9: in both queries the \<open>WHERE\<close> clause is the \<open>AND\<close> of the groups (source,
  target and relationship groups in the relationship query; source group and
  search clause in the node query), each group is the parenthesised \<open>OR\<close> of the
  non-empty texts of its blocks in index order, a group with no such text (in
  particular one whose criteria list is empty) is left out, and with no group
  there is no \<open>WHERE\<close> line. Two source blocks with types A and B compile to
  \<open>(block1 OR block2)\<close>.
\<close>

theorem blocks_ored_groups_anded:
  "(relationships req = Some rels \<longrightarrow>
     build_relationship_query req = Inr (relationship_query req rels))
   \<and> fst (relationship_query req rels) =
     (if use_variable_path rels
      then ''MATCH p = (n)-[*1..'' @ str_int (max_default (map max_depth rels) 1) @ '']-(m)''
      else ''MATCH (n)-[r]-(m)'')
     @ where_clause (or_group (node_block_texts (or_empty (source_nodes req)) ''n'' ''s'')
                     @ or_group (node_block_texts (or_empty (target_nodes req)) ''m'' ''t'')
                     @ or_group (rel_block_texts rels (use_variable_path rels)))
     @ (if use_variable_path rels then ''\<newline>WITH n, m, p, last(relationships(p)) as r'' else [])
     @ ''\<newline>RETURN n, r, m, type(r) as rel_type, id(r) as rel_id''
     @ pagination req
   \<and> fst (build_node_query req) =
     ''MATCH (n)''
     @ where_clause (or_group (node_block_texts (or_empty (source_nodes req)) ''n'' ''s'')
                     @ (if truthy (search_query req) then [search_clause] else []))
     @ ''\<newline>RETURN n, labels(n) as node_labels, id(n) as node_id''
     @ pagination req
   \<and> (\<forall>bs. or_group bs = (if bs = [] then [] else [''('' @ join_str '' OR '' bs @ '')'']))
   \<and> (\<forall>ws. where_clause ws =
          (if ws = [] then [] else ''\<newline>WHERE '' @ join_str '' AND '' ws))
   \<and> or_group (node_block_texts [] var prefix) = []
   \<and> or_group (rel_block_texts [] variable) = []
   \<and> fst (build_node_query ex_two_sources) =
       ''MATCH (n)\<newline>WHERE ((any(l IN labels(n) WHERE l IN $s0_labels)) OR (any(l IN labels(n) WHERE l IN $s1_labels)))\<newline>RETURN n, labels(n) as node_labels, id(n) as node_id\<newline>SKIP 0 LIMIT 100''"
proof -
  have ex: "fst (build_node_query ex_two_sources) =
       ''MATCH (n)\<newline>WHERE ((any(l IN labels(n) WHERE l IN $s0_labels)) OR (any(l IN labels(n) WHERE l IN $s1_labels)))\<newline>RETURN n, labels(n) as node_labels, id(n) as node_id\<newline>SKIP 0 LIMIT 100''"
    by code_simp
  have e1: "or_group (node_block_texts [] var prefix) = []"
    by (simp add: or_group_def node_block_texts_def)
  have e2: "or_group (rel_block_texts [] variable) = []"
    by (simp add: or_group_def rel_block_texts_def)
  have b: "relationships req = Some rels \<longrightarrow>
     build_relationship_query req = Inr (relationship_query req rels)"
    by (simp add: build_relationship_query_Some)
  show ?thesis
    using relationship_query_text[of req rels] build_node_query_text[of req] ex e1 e2 b
    by (simp only: or_group_def where_clause_def simp_thms)
qed

theorem blocks_ored_groups_anded_witness:
  "relationships ex_two_sources = Some []
   \<and> build_relationship_query ex_two_sources = Inr (relationship_query ex_two_sources [])
   \<and> fst (relationship_query ex_two_sources []) =
     ''MATCH (n)-[r]-(m)\<newline>WHERE ((any(l IN labels(n) WHERE l IN $s0_labels)) OR (any(l IN labels(n) WHERE l IN $s1_labels)))\<newline>RETURN n, r, m, type(r) as rel_type, id(r) as rel_id\<newline>SKIP 0 LIMIT 100''"
proof -
  have r: "relationships ex_two_sources = Some []" by (simp add: ex_two_sources_def)
  have "(if use_variable_path []
      then ''MATCH p = (n)-[*1..'' @ str_int (max_default (map max_depth []) 1) @ '']-(m)''
      else ''MATCH (n)-[r]-(m)'')
     @ where_clause (or_group (node_block_texts (or_empty (source_nodes ex_two_sources)) ''n'' ''s'')
                     @ or_group (node_block_texts (or_empty (target_nodes ex_two_sources)) ''m'' ''t'')
                     @ or_group (rel_block_texts [] (use_variable_path [])))
     @ (if use_variable_path []
        then ''\<newline>WITH n, m, p, last(relationships(p)) as r'' else [])
     @ ''\<newline>RETURN n, r, m, type(r) as rel_type, id(r) as rel_id''
     @ pagination ex_two_sources =
     ''MATCH (n)-[r]-(m)\<newline>WHERE ((any(l IN labels(n) WHERE l IN $s0_labels)) OR (any(l IN labels(n) WHERE l IN $s1_labels)))\<newline>RETURN n, r, m, type(r) as rel_type, id(r) as rel_id\<newline>SKIP 0 LIMIT 100''"
    by code_simp
  with blocks_ored_groups_anded[of ex_two_sources "[]"] r show ?thesis by simp
qed

end
